theory Spec2Isabelle
  imports Complex_Main
begin

section \<open>Errors and tensors\<close>

text \<open>
  Exceptions are values. \<open>ValueError\<close> is the one exception the repository raises itself
  (GGNN_Train.py, line 64); the others are raised by Python or by the tensor framework
  (a shape mismatch, an index out of range, a division by zero, a None where a tensor is
  needed, a local variable read before assignment, a file that is not JSON).
\<close>

datatype error =
    ValueError string
  | RuntimeError
  | IndexError
  | ZeroDivisionError
  | TypeError
  | AttributeError
  | UnboundLocalError
  | JSONDecodeError

text \<open>
  A two-dimensional tensor carries its shape, as torch does: a tensor of shape (0, d) still
  has \<open>size(-1) = d\<close>. Entries are real numbers (exact arithmetic).
\<close>

record tensor =
  size0 :: nat
  size1 :: nat
  vals :: "real list list"

definition wf_tensor :: "tensor \<Rightarrow> bool" where
  "wf_tensor t \<longleftrightarrow> length (vals t) = size0 t \<and> list_all (\<lambda>r. length r = size1 t) (vals t)"

definition entry :: "tensor \<Rightarrow> nat \<Rightarrow> nat \<Rightarrow> real" where
  "entry t i j = vals t ! i ! j"

text \<open>\<open>x.new_zeros(n, k)\<close>\<close>

definition new_zeros :: "nat \<Rightarrow> nat \<Rightarrow> tensor" where
  "new_zeros n k = \<lparr>size0 = n, size1 = k, vals = replicate n (replicate k 0)\<rparr>"

text \<open>\<open>torch.cat([a, b], dim=1)\<close>: the rows are joined; the row counts must agree.\<close>

definition cat_dim1 :: "tensor \<Rightarrow> tensor \<Rightarrow> error + tensor" where
  "cat_dim1 a b =
     (if size0 a = size0 b
      then Inr \<lparr>size0 = size0 a, size1 = size1 a + size1 b,
                vals = map2 (@) (vals a) (vals b)\<rparr>
      else Inl RuntimeError)"

text \<open>\<open>torch.matmul(a, b)\<close> and \<open>a @ b\<close> on matrices: the inner dimensions must agree.\<close>

definition dot :: "real list \<Rightarrow> real list \<Rightarrow> real" where
  "dot r c = sum_list (map2 (*) r c)"

definition column :: "tensor \<Rightarrow> nat \<Rightarrow> real list" where
  "column b j = map (\<lambda>r. r ! j) (vals b)"

definition mm :: "tensor \<Rightarrow> tensor \<Rightarrow> tensor" where
  "mm a b = \<lparr>size0 = size0 a, size1 = size1 b,
             vals = map (\<lambda>r. map (\<lambda>j. dot r (column b j)) [0..<size1 b]) (vals a)\<rparr>"

definition matmul :: "tensor \<Rightarrow> tensor \<Rightarrow> error + tensor" where
  "matmul a b = (if size1 a = size0 b then Inr (mm a b) else Inl RuntimeError)"


text \<open>The tensor of shape (n, m) whose entry at (i, j) is \<open>g i j\<close>.\<close>

definition tabulate :: "nat \<Rightarrow> nat \<Rightarrow> (nat \<Rightarrow> nat \<Rightarrow> real) \<Rightarrow> tensor" where
  "tabulate n m g = \<lparr>size0 = n, size1 = m, vals = map (\<lambda>i. map (\<lambda>j. g i j) [0..<m]) [0..<n]\<rparr>"

text \<open>\<open>torch.eye(n)\<close>, \<open>torch.ones(n, m)\<close>, \<open>t.T\<close>, and a function applied to every entry.\<close>

definition eye :: "nat \<Rightarrow> tensor" where
  "eye n = tabulate n n (\<lambda>i j. if i = j then 1 else 0)"

definition ones :: "nat \<Rightarrow> nat \<Rightarrow> tensor" where
  "ones n m = tabulate n m (\<lambda>i j. 1)"

definition tensor_T :: "tensor \<Rightarrow> tensor" where
  "tensor_T t = tabulate (size1 t) (size0 t) (\<lambda>i j. entry t j i)"

definition tmap :: "(real \<Rightarrow> real) \<Rightarrow> tensor \<Rightarrow> tensor" where
  "tmap f t = t\<lparr>vals := map (map f) (vals t)\<rparr>"

definition smul :: "real \<Rightarrow> tensor \<Rightarrow> tensor" where
  "smul k t = tmap (\<lambda>v. k * v) t"

text \<open>
  Broadcasting of two matrices, as torch does it: along each dimension the sizes are equal
  or one of them is 1, and a dimension of size 1 is read at index 0 throughout.
\<close>

definition bdim :: "nat \<Rightarrow> nat \<Rightarrow> nat option" where
  "bdim a b = (if a = b then Some a else if a = 1 then Some b else if b = 1 then Some a else None)"

definition bidx :: "nat \<Rightarrow> nat \<Rightarrow> nat" where
  "bidx n i = (if n = 1 then 0 else i)"

definition broadcast2 :: "(real \<Rightarrow> real \<Rightarrow> real) \<Rightarrow> tensor \<Rightarrow> tensor \<Rightarrow> error + tensor" where
  "broadcast2 f a b =
     (case (bdim (size0 a) (size0 b), bdim (size1 a) (size1 b)) of
        (Some n, Some m) \<Rightarrow>
          Inr (tabulate n m (\<lambda>i j. f (entry a (bidx (size0 a) i) (bidx (size1 a) j))
                                     (entry b (bidx (size0 b) i) (bidx (size1 b) j))))
      | _ \<Rightarrow> Inl RuntimeError)"

definition add :: "tensor \<Rightarrow> tensor \<Rightarrow> error + tensor" where
  "add a b = broadcast2 (+) a b"

definition sub :: "tensor \<Rightarrow> tensor \<Rightarrow> error + tensor" where
  "sub a b = broadcast2 (-) a b"

text \<open>A one-dimensional tensor broadcasts against a matrix as a single row.\<close>

definition row_tensor :: "real list \<Rightarrow> tensor" where
  "row_tensor b = \<lparr>size0 = 1, size1 = length b, vals = [b]\<rparr>"


section \<open>GGNN_Train.py: the gated graph convolution\<close>

text \<open>
  \<open>GatedGraphConv\<close>. The weight of shape (num_layers, out_channels, out_channels) is the
  list of its num_layers matrices; \<open>weight[i]\<close> outside the list is an IndexError.
  The GRU cell \<open>rnn\<close> and the message passing \<open>propagate\<close> (over the edges of the global
  \<open>data\<close>) are the framework's and are parameters of the layer.
\<close>

record GatedGraphConv =
  out_channels :: nat
  num_layers :: nat
  weight :: "tensor list"
  rnn :: "tensor \<Rightarrow> tensor \<Rightarrow> tensor"
  propagate :: "tensor \<Rightarrow> tensor"

text \<open>
  The calls one iteration makes to the framework, with their arguments, in the order it
  makes them: \<open>Matmul x i\<close> is \<open>torch.matmul(x, self.weight[i])\<close>, \<open>Propagate m\<close> is
  \<open>self.propagate(edge_index, x=m, ...)\<close>, \<open>Rnn m x\<close> is \<open>self.rnn(m, x)\<close>.
\<close>

datatype call = Matmul tensor nat | Propagate tensor | Rnn tensor tensor

definition channel_msg :: string where
  "channel_msg = ''The number of input channels is not allowed to be larger than the number of output channels''"

text \<open>Lines 70-72: the padding in case the input is smaller than the output.\<close>

definition pad :: "GatedGraphConv \<Rightarrow> tensor \<Rightarrow> error + tensor" where
  "pad c x =
     (if size1 x < out_channels c
      then cat_dim1 x (new_zeros (size0 x) (out_channels c - size1 x))
      else Inr x)"

text \<open>
  Lines 75-79: the body of the loop, at index \<open>i\<close> and state \<open>x\<close>; it returns the next
  state and the calls it made.
\<close>

definition body :: "GatedGraphConv \<Rightarrow> nat \<Rightarrow> tensor \<Rightarrow> error + tensor \<times> call list" where
  "body c i x =
     (if i < length (weight c)
      then (case matmul x (weight c ! i) of
              Inl e \<Rightarrow> Inl e
            | Inr m \<Rightarrow>
                (let m' = propagate c m
                 in Inr (rnn c m' x, [Matmul x i, Propagate m, Rnn m' x])))
      else Inl IndexError)"

text \<open>
  Line 74: \<open>for i in range(self.num_layers)\<close>, over the indices still to come, with the
  calls made so far.
\<close>

fun loop :: "GatedGraphConv \<Rightarrow> nat list \<Rightarrow> tensor \<times> call list \<Rightarrow> error + tensor \<times> call list" where
  "loop c [] s = Inr s"
| "loop c (i # rest) (x, tr) =
     (case body c i x of
        Inl e \<Rightarrow> Inl e
      | Inr (x', cs) \<Rightarrow> loop c rest (x', tr @ cs))"

definition forward_log :: "GatedGraphConv \<Rightarrow> tensor \<Rightarrow> error + tensor \<times> call list" where
  "forward_log c x =
     (if size1 x > out_channels c then Inl (ValueError channel_msg)
      else (case pad c x of
              Inl e \<Rightarrow> Inl e
            | Inr x0 \<Rightarrow> loop c [0..<num_layers c] (x0, [])))"

text \<open>\<open>GatedGraphConv.forward\<close>: what the caller receives.\<close>

definition GatedGraphConv_forward :: "GatedGraphConv \<Rightarrow> tensor \<Rightarrow> error + tensor" where
  "GatedGraphConv_forward c x = map_sum id fst (forward_log c x)"

text \<open>
  The recurrence in the spec's words: the state after \<open>k\<close> steps, each step multiplying
  the state by the k-th weight, propagating, and updating with the GRU cell.
\<close>

primrec unrolled :: "GatedGraphConv \<Rightarrow> nat \<Rightarrow> tensor \<Rightarrow> tensor" where
  "unrolled c 0 x0 = x0"
| "unrolled c (Suc k) x0 =
     (let s = unrolled c k x0 in rnn c (propagate c (mm s (weight c ! k))) s)"

definition step_calls :: "GatedGraphConv \<Rightarrow> tensor \<Rightarrow> nat \<Rightarrow> call list" where
  "step_calls c x0 i =
     (let s = unrolled c i x0; m = mm s (weight c ! i)
      in [Matmul s i, Propagate m, Rnn (propagate c m) s])"

text \<open>The state a call works on: the tensor multiplied, and the hidden state of the GRU cell.\<close>

definition state_of :: "call \<Rightarrow> tensor option" where
  "state_of k = (case k of Matmul s i \<Rightarrow> Some s | Propagate m \<Rightarrow> None | Rnn m s \<Rightarrow> Some s)"

text \<open>The shapes \<open>__init__\<close> gives the weight (lines 48-50).\<close>

definition weight_ok :: "GatedGraphConv \<Rightarrow> bool" where
  "weight_ok c \<longleftrightarrow>
     length (weight c) = num_layers c \<and>
     list_all (\<lambda>w. size0 w = out_channels c \<and> size1 w = out_channels c) (weight c)"


section \<open>ADGN_Message.py: the antisymmetric convolution\<close>

text \<open>
  \<open>ADGNConv\<close>. \<open>linear_weight\<close> is the weight, of shape (out_channels, in_channels), of
  \<open>self.linear = nn.Linear(in_channels, out_channels, bias=False)\<close>.
\<close>

record ADGNConv =
  in_channels :: nat
  conv_out_channels :: nat
  gamma :: real
  epsilon :: real
  antisymmetry :: bool
  Weights :: tensor
  bias :: "real list"
  Identity :: tensor
  linear_weight :: tensor

text \<open>
  What \<open>__init__\<close> (lines 61-79) fixes: the shapes of the parameters and the identity
  matrix, which is not learned.
\<close>

definition ADGNConv_ok :: "ADGNConv \<Rightarrow> bool" where
  "ADGNConv_ok c \<longleftrightarrow>
     wf_tensor (Weights c) \<and> size0 (Weights c) = in_channels c \<and>
     size1 (Weights c) = in_channels c \<and> Identity c = eye (in_channels c)"

text \<open>Lines 91-95: the weight the update uses.\<close>

definition effective_W :: "ADGNConv \<Rightarrow> error + tensor" where
  "effective_W c =
     (if antisymmetry c
      then (case sub (Weights c) (tensor_T (Weights c)) of
              Inl e \<Rightarrow> Inl e
            | Inr d \<Rightarrow> sub d (smul (gamma c) (Identity c)))
      else Inr (Weights c))"

text \<open>Line 99: \<open>self.linear(x)\<close>, that is \<open>x @ linear_weight.T\<close>.\<close>

definition linear :: "ADGNConv \<Rightarrow> tensor \<Rightarrow> error + tensor" where
  "linear c x = matmul x (tensor_T (linear_weight c))"

text \<open>
  The edge index is the list of its (row, col) pairs. Line 102: \<open>add_self_loops\<close> appends
  one loop per node.
\<close>

type_synonym edges = "(nat \<times> nat) list"

definition add_self_loops :: "edges \<Rightarrow> nat \<Rightarrow> edges" where
  "add_self_loops es n = es @ map (\<lambda>i. (i, i)) [0..<n]"

text \<open>
  Line 108: \<open>degree(row, n)\<close> counts how often each node occurs in \<open>row\<close>; the framework
  fails on an index outside the n nodes.
\<close>

definition degree :: "nat list \<Rightarrow> nat \<Rightarrow> error + real list" where
  "degree idx n =
     (if list_all (\<lambda>r. r < n) idx
      then Inr (map (\<lambda>i. real (count_list idx i)) [0..<n])
      else Inl RuntimeError)"

text \<open>Lines 109-112: \<open>deg.pow(-0.5)\<close> and the weight of each edge.\<close>

definition edge_norm :: "edges \<Rightarrow> real list \<Rightarrow> error + real list" where
  "edge_norm es deg =
     (let deg_inv_sqrt = map (\<lambda>d. d powr (- (1 / 2))) deg
      in if list_all (\<lambda>(r, c). r < length deg \<and> c < length deg) es
         then Inr (map (\<lambda>(r, c). deg_inv_sqrt ! r * deg_inv_sqrt ! c) es)
         else Inl IndexError)"

text \<open>
  Lines 115 and 126-129: \<open>propagate\<close> with the "add" aggregation and the \<open>message\<close> of the
  layer: node \<open>i\<close> receives, over every edge (r, i), the row of \<open>x\<close> at the source \<open>r\<close>
  scaled by the weight of the edge.
\<close>

definition propagate_add :: "edges \<Rightarrow> real list \<Rightarrow> tensor \<Rightarrow> error + tensor" where
  "propagate_add es nrm x =
     (if list_all (\<lambda>(r, c). r < size0 x \<and> c < size0 x) es
      then Inr (tabulate (size0 x) (size1 x)
                 (\<lambda>i j. sum_list (map (\<lambda>((r, c), w). if c = i then w * entry x r j else 0)
                                     (zip es nrm))))
      else Inl IndexError)"

text \<open>Lines 99-115: the aggregated neighbour term \<open>aggr_x\<close>.\<close>

definition aggr_x :: "ADGNConv \<Rightarrow> tensor \<Rightarrow> edges \<Rightarrow> error + tensor" where
  "aggr_x c x edge_index =
     (case linear c x of
        Inl e \<Rightarrow> Inl e
      | Inr lx \<Rightarrow>
          (let es = add_self_loops edge_index (size0 x)
           in case degree (map fst es) (size0 lx) of
                Inl e \<Rightarrow> Inl e
              | Inr deg \<Rightarrow>
                  (case edge_norm es deg of
                     Inl e \<Rightarrow> Inl e
                   | Inr nrm \<Rightarrow> propagate_add es nrm lx)))"

text \<open>Line 120: \<open>x_prev @ W + aggr_x + self.bias\<close>.\<close>

definition pre_activation :: "ADGNConv \<Rightarrow> tensor \<Rightarrow> edges \<Rightarrow> error + tensor" where
  "pre_activation c x edge_index =
     (case effective_W c of
        Inl e \<Rightarrow> Inl e
      | Inr W \<Rightarrow>
          (case aggr_x c x edge_index of
             Inl e \<Rightarrow> Inl e
           | Inr a \<Rightarrow>
               (case matmul x W of
                  Inl e \<Rightarrow> Inl e
                | Inr xw \<Rightarrow>
                    (case add xw a of
                       Inl e \<Rightarrow> Inl e
                     | Inr s \<Rightarrow> add s (row_tensor (bias c))))))"

text \<open>\<open>ADGNConv.forward\<close>; lines 121-124 are the residual update.\<close>

definition ADGNConv_forward :: "ADGNConv \<Rightarrow> tensor \<Rightarrow> edges \<Rightarrow> error + tensor" where
  "ADGNConv_forward c x edge_index =
     (case pre_activation c x edge_index of
        Inl e \<Rightarrow> Inl e
      | Inr z \<Rightarrow> add x (smul (epsilon c) (tmap tanh z)))"


section \<open>GNN.py: the graph convolution network and its evaluation\<close>

text \<open>
  A graph sample of the graph-learning library: the node features (None when the sample
  has none), the edges, the batch assignment, the labels and the three split masks.
\<close>

record graph_data =
  data_x :: "tensor option"
  edge_index :: edges
  batch :: "nat list"
  data_y :: "nat list"
  train_mask :: "bool list"
  val_mask :: "bool list"
  test_mask :: "bool list"
  num_nodes :: nat
  num_graphs :: nat

text \<open>\<open>data.num_node_features\<close>: the library reads it off \<open>data.x\<close>, 0 when there is none.\<close>

definition num_node_features :: "graph_data \<Rightarrow> nat" where
  "num_node_features d = (case data_x d of None \<Rightarrow> 0 | Some t \<Rightarrow> size1 t)"

text \<open>
  The framework's functions the model calls and this development does not open:
  \<open>F.dropout(x, p, training)\<close> and \<open>global_max_pool(x, batch)\<close>.
\<close>

record torch =
  dropout :: "real \<Rightarrow> bool \<Rightarrow> tensor \<Rightarrow> tensor"
  global_max_pool :: "tensor \<Rightarrow> nat list \<Rightarrow> tensor"

text \<open>A convolution layer of the library (\<open>GCNConv\<close>, \<open>GINConv\<close>), called on \<open>(x, edge_index)\<close>.\<close>

type_synonym conv_layer = "tensor \<Rightarrow> edges \<Rightarrow> tensor"

record GCN =
  task :: string
  doutrate :: real
  conv_layers :: int
  convs :: "conv_layer list"
  post_mp :: "tensor \<Rightarrow> tensor"
  training :: bool

text \<open>Line 66: \<open>self.num_layers = self.conv_layers + 1\<close>.\<close>

definition GCN_num_layers :: "GCN \<Rightarrow> int" where
  "GCN_num_layers m = conv_layers m + 1"

text \<open>
  \<open>GCN.__init__\<close>, lines 45-66. \<open>build_conv_model\<close> returns a fresh layer of the library;
  \<open>new_conv k task input_dim hidden_dim\<close> is the k-th one built.
\<close>

definition GCN_init ::
  "(nat \<Rightarrow> string \<Rightarrow> nat \<Rightarrow> nat \<Rightarrow> conv_layer) \<Rightarrow> (tensor \<Rightarrow> tensor) \<Rightarrow>
     nat \<Rightarrow> nat \<Rightarrow> int \<Rightarrow> real \<Rightarrow> string \<Rightarrow> GCN" where
  "GCN_init new_conv mp input_dim hidden_dim n doutrate0 task0 =
     \<lparr>task = task0, doutrate = doutrate0, conv_layers = n,
      convs = new_conv 0 task0 input_dim hidden_dim
              # map (\<lambda>i. new_conv (Suc i) task0 hidden_dim hidden_dim) [0..<nat n],
      post_mp = mp, training = True\<rparr>"

definition relu :: "tensor \<Rightarrow> tensor" where
  "relu t = tmap (max 0) t"

text \<open>\<open>F.log_softmax(x, dim=1)\<close>.\<close>

definition log_softmax :: "tensor \<Rightarrow> tensor" where
  "log_softmax t = t\<lparr>vals := map (\<lambda>r. map (\<lambda>v. v - ln (sum_list (map exp r))) r) (vals t)\<rparr>"

text \<open>
  Lines 95-106: the loop over the layers. The state is \<open>x\<close> and the local \<open>emb\<close>, which
  is unbound (None) until the first iteration has run.
\<close>

fun GCN_loop ::
  "torch \<Rightarrow> GCN \<Rightarrow> edges \<Rightarrow> nat list \<Rightarrow> tensor \<times> tensor option \<Rightarrow> error + tensor \<times> tensor option" where
  "GCN_loop fw m ei [] s = Inr s"
| "GCN_loop fw m ei (i # rest) (x, emb) =
     (if i < length (convs m)
      then (let x1 = (convs m ! i) x ei
            in GCN_loop fw m ei rest (dropout fw (doutrate m) (training m) (relu x1), Some x1))
      else Inl IndexError)"

text \<open>Lines 95-117: the layer stack and the head, from the features \<open>x0\<close> it starts with.\<close>

definition layer_stack :: "torch \<Rightarrow> GCN \<Rightarrow> graph_data \<Rightarrow> tensor \<Rightarrow> error + tensor \<times> tensor" where
  "layer_stack fw m d x0 =
     (case GCN_loop fw m (edge_index d) [0..<nat (GCN_num_layers m)] (x0, None) of
        Inl e \<Rightarrow> Inl e
      | Inr (x, emb) \<Rightarrow>
          (let x1 = (if task m = ''graph'' then global_max_pool fw x (batch d) else x);
               x2 = post_mp m x1
           in case emb of
                None \<Rightarrow> Inl UnboundLocalError
              | Some e \<Rightarrow> Inr (e, log_softmax x2)))"

text \<open>\<open>GCN.forward\<close>; lines 88-93 choose the features.\<close>

definition GCN_forward :: "torch \<Rightarrow> GCN \<Rightarrow> graph_data \<Rightarrow> error + tensor \<times> tensor" where
  "GCN_forward fw m d =
     (case (if num_node_features d = 0 then Some (ones (num_nodes d) 1) else data_x d) of
        None \<Rightarrow> Inl TypeError
      | Some x0 \<Rightarrow> layer_stack fw m d x0)"

text \<open>
  \<open>t.argmax(dim=1)\<close> and \<open>t.max(1)[1]\<close>: for each row the index of its largest entry
  (the first one where several are largest); the framework fails when the rows are empty.
\<close>

definition argmax_row :: "real list \<Rightarrow> nat" where
  "argmax_row r = fold (\<lambda>i best. if r ! best < r ! i then i else best) [0..<length r] 0"

definition argmax_dim1 :: "tensor \<Rightarrow> error + nat list" where
  "argmax_dim1 t = (if size1 t = 0 then Inl IndexError else Inr (map argmax_row (vals t)))"

text \<open>\<open>v[mask]\<close> with a boolean mask: the mask must be as long as \<open>v\<close>.\<close>

definition mask_select :: "'a list \<Rightarrow> bool list \<Rightarrow> error + 'a list" where
  "mask_select v msk =
     (if length msk = length v then Inr (map fst (filter snd (zip v msk)))
      else Inl IndexError)"

text \<open>\<open>pred.eq(label).sum().item()\<close>, the two vectors broadcast against each other.\<close>

definition eq_sum :: "nat list \<Rightarrow> nat list \<Rightarrow> error + nat" where
  "eq_sum p l =
     (case bdim (length p) (length l) of
        None \<Rightarrow> Inl RuntimeError
      | Some n \<Rightarrow>
          Inr (length (filter (\<lambda>i. p ! bidx (length p) i = l ! bidx (length l) i) [0..<n])))"

text \<open>\<open>mask.sum().item()\<close> and \<open>torch.sum(mask).item()\<close>.\<close>

definition mask_sum :: "bool list \<Rightarrow> nat" where
  "mask_sum msk = length (filter id msk)"

text \<open>
  A data loader: the batches an iteration yields and the dataset behind them
  (\<open>loader.dataset\<close>).
\<close>

record loader =
  batches :: "graph_data list"
  dataset :: "graph_data list"

text \<open>Lines 205-222 of \<open>test\<close>: the loop over the batches, counting the correct predictions.\<close>

fun test_loop :: "torch \<Rightarrow> GCN \<Rightarrow> bool \<Rightarrow> graph_data list \<Rightarrow> nat \<Rightarrow> error + nat" where
  "test_loop fw m is_validation [] correct = Inr correct"
| "test_loop fw m is_validation (d # ds) correct =
     (case GCN_forward fw m d of
        Inl e \<Rightarrow> Inl e
      | Inr (embeddings, logp) \<Rightarrow>
          (case argmax_dim1 logp of
             Inl e \<Rightarrow> Inl e
           | Inr pred \<Rightarrow>
               (case (if task m = ''node''
                      then (let msk = (if is_validation then val_mask d else test_mask d)
                            in case mask_select pred msk of
                                 Inl e \<Rightarrow> Inl e
                               | Inr pred' \<Rightarrow>
                                   (case mask_select (data_y d) msk of
                                      Inl e \<Rightarrow> Inl e
                                    | Inr label' \<Rightarrow> Inr (pred', label')))
                      else Inr (pred, data_y d)) of
                  Inl e \<Rightarrow> Inl e
                | Inr (pred', label') \<Rightarrow>
                    (case eq_sum pred' label' of
                       Inl e \<Rightarrow> Inl e
                     | Inr k \<Rightarrow> test_loop fw m is_validation ds (correct + k)))))"

text \<open>
  \<open>test(loader, model, is_validation)\<close>. Line 202, \<open>model.eval()\<close>, turns the training mode
  off; lines 224-230 compute the total and the quotient.
\<close>

definition test :: "torch \<Rightarrow> loader \<Rightarrow> GCN \<Rightarrow> bool \<Rightarrow> error + real" where
  "test fw ld m is_validation =
     (case test_loop fw (m\<lparr>training := False\<rparr>) is_validation (batches ld) 0 of
        Inl e \<Rightarrow> Inl e
      | Inr correct \<Rightarrow>
          (let total = (if task m = ''graph'' then length (dataset ld)
                        else sum_list (map (\<lambda>d. mask_sum (test_mask d)) (dataset ld)))
           in if total = 0 then Inl ZeroDivisionError
              else Inr (real correct / real total)))"

text \<open>
  The accuracy of a model over a mask, in the spec's words: the nodes of the mask whose
  predicted class is the label, over the nodes of the mask.
\<close>

definition masked_accuracy :: "nat list \<Rightarrow> nat list \<Rightarrow> bool list \<Rightarrow> real" where
  "masked_accuracy pred label msk =
     real (length (filter (\<lambda>i. msk ! i \<and> pred ! i = label ! i) [0..<length msk]))
       / real (length (filter (\<lambda>i. msk ! i) [0..<length msk]))"


section \<open>GGNN_Train.py: the model, the training loop and the script\<close>

text \<open>
  The world outside the process: the files, by path, and the standard output. A JSON
  file holds a JSON value, a tensorboard log directory the scalars written to it. Of what
  the scripts print, only the progress line of each epoch (line 223) is kept.
\<close>

datatype json = JNull | JNum real | JStr string | JList "json list" | JDict "(string \<times> json) list"

datatype file_content = JsonFile json | EventFile "(string \<times> real \<times> int) list" | OtherFile

datatype printed = Processing_Epoch int

record world =
  files :: "string \<Rightarrow> file_content option"
  stdout :: "printed list"

text \<open>
  \<open>GGNN\<close>. \<open>emb\<close> is None for the identity \<open>lambda x: x\<close> and the linear reduction
  otherwise; the MLP and the output layer are modules of the framework.
\<close>

record GGNN =
  emb :: "(tensor \<Rightarrow> tensor) option"
  conv :: GatedGraphConv
  mlp :: "tensor \<Rightarrow> tensor"
  out_layer :: "tensor \<Rightarrow> tensor"
  best_acc :: real

text \<open>
  What the framework supplies when a model is built: the linear reduction, the initial
  value of each weight matrix (by number of output channels and index), the GRU cell, the
  message passing, the MLP and the output layer.
\<close>

record ggnn_modules =
  emb_linear :: "tensor \<Rightarrow> tensor"
  initial_weight :: "nat \<Rightarrow> nat \<Rightarrow> tensor"
  gru_cell :: "tensor \<Rightarrow> tensor \<Rightarrow> tensor"
  message_passing :: "tensor \<Rightarrow> tensor"
  mlp_net :: "tensor \<Rightarrow> tensor"
  out_linear :: "tensor \<Rightarrow> tensor"

text \<open>
  \<open>GatedGraphConv.__init__\<close>, lines 44-52: a tensor with a negative dimension cannot be
  allocated.
\<close>

definition GatedGraphConv_init :: "ggnn_modules \<Rightarrow> nat \<Rightarrow> int \<Rightarrow> error + GatedGraphConv" where
  "GatedGraphConv_init mods out n =
     (if n < 0 then Inl RuntimeError
      else Inr \<lparr>out_channels = out, num_layers = nat n,
                weight = map (initial_weight mods out) [0..<nat n],
                rnn = gru_cell mods, propagate = message_passing mods\<rparr>)"

text \<open>\<open>GGNN.__init__\<close>, lines 132-146; \<open>out_channels=None\<close> stands for the input channels.\<close>

definition GGNN_init :: "ggnn_modules \<Rightarrow> nat \<Rightarrow> nat option \<Rightarrow> int \<Rightarrow> error + GGNN" where
  "GGNN_init mods in_ch out_opt num_conv =
     (let out = (case out_opt of None \<Rightarrow> in_ch | Some oc \<Rightarrow> oc)
      in case GatedGraphConv_init mods out num_conv of
           Inl e \<Rightarrow> Inl e
         | Inr c \<Rightarrow>
             Inr \<lparr>emb = (if in_ch \<noteq> out then Some (emb_linear mods) else None),
                  conv = c, mlp = mlp_net mods, out_layer = out_linear mods,
                  best_acc = - 1\<rparr>)"

text \<open>\<open>GGNN.forward\<close>, lines 148-163.\<close>

definition GGNN_forward :: "GGNN \<Rightarrow> graph_data \<Rightarrow> error + tensor \<times> tensor" where
  "GGNN_forward m d =
     (case data_x d of
        None \<Rightarrow> Inl (case emb m of None \<Rightarrow> AttributeError | Some f \<Rightarrow> TypeError)
      | Some x \<Rightarrow>
          (case GatedGraphConv_forward (conv m) (case emb m of None \<Rightarrow> x | Some f \<Rightarrow> f x) of
             Inl e \<Rightarrow> Inl e
           | Inr h \<Rightarrow> (let x_emb = out_layer m (mlp m h) in Inr (x_emb, log_softmax x_emb))))"

text \<open>\<open>t[mask]\<close> on a matrix: the rows the boolean mask selects.\<close>

definition mask_rows :: "tensor \<Rightarrow> bool list \<Rightarrow> error + tensor" where
  "mask_rows t msk =
     (if length msk = size0 t
      then Inr \<lparr>size0 = mask_sum msk, size1 = size1 t,
                vals = map fst (filter snd (zip (vals t) msk))\<rparr>
      else Inl IndexError)"

text \<open>
  What a training run is given: the modules of the framework, \<open>dataset.x.shape[-1]\<close>, the
  loader over the dataset, the loss, the effect of one optimiser step on the model
  (\<open>zero_grad\<close>, \<open>backward\<close>, \<open>step\<close>), the number of CPUs, and \<open>computeStats\<close>.
\<close>

text \<open>
  Modelled from the spec: \<open>compstats.computeStats\<close> is imported by GGNN_Train.py (line 31)
  and is not among the sources. By the spec it accumulates the process-resource telemetry
  in the dictionary it is passed, and creates no file of its own: \<open>computeStats env e n r\<close>
  is the dictionary after the call \<open>computeStats(start_time, e, current_process, n, r)\<close>.
\<close>

record train_env =
  modules :: ggnn_modules
  dataset_in_channels :: nat
  the_loader :: loader
  loss_fn :: "tensor \<Rightarrow> nat list \<Rightarrow> real"
  optimizer_step :: "GGNN \<Rightarrow> graph_data \<Rightarrow> GGNN"
  num_cpus :: int
  computeStats :: "int \<Rightarrow> int \<Rightarrow> json \<Rightarrow> json"

text \<open>The locals of \<open>train\<close>; \<open>accs\<close> holds train_acc, val_acc and test_acc once they are bound.\<close>

record train_state =
  model :: GGNN
  tot_loss :: real
  best_accs :: "real \<times> real \<times> real"
  requirements :: json
  accs :: "(real \<times> real \<times> real) option"

text \<open>Lines 231-244: one batch of an epoch.\<close>

definition batch_step :: "train_env \<Rightarrow> train_state \<Rightarrow> graph_data \<Rightarrow> error + train_state" where
  "batch_step env s d =
     (case GGNN_forward (model s) d of
        Inl e \<Rightarrow> Inl e
      | Inr (emb_x, pred) \<Rightarrow>
          (case mask_rows pred (train_mask d) of
             Inl e \<Rightarrow> Inl e
           | Inr pred' \<Rightarrow>
               (case mask_select (data_y d) (train_mask d) of
                  Inl e \<Rightarrow> Inl e
                | Inr label \<Rightarrow>
                    Inr (s\<lparr>model := optimizer_step env (model s) d,
                           tot_loss := tot_loss s + loss_fn env pred' label\<rparr>))))"

fun batch_loop :: "train_env \<Rightarrow> graph_data list \<Rightarrow> train_state \<Rightarrow> error + train_state" where
  "batch_loop env [] s = Inr s"
| "batch_loop env (d # ds) s =
     (case batch_step env s d of Inl e \<Rightarrow> Inl e | Inr s' \<Rightarrow> batch_loop env ds s')"

text \<open>Lines 261-264: the accuracy over one mask.\<close>

definition split_accuracy :: "tensor \<Rightarrow> graph_data \<Rightarrow> bool list \<Rightarrow> error + real" where
  "split_accuracy logits d msk =
     (case mask_rows logits msk of
        Inl e \<Rightarrow> Inl e
      | Inr sel \<Rightarrow>
          (case argmax_dim1 sel of
             Inl e \<Rightarrow> Inl e
           | Inr pred \<Rightarrow>
               (case mask_select (data_y d) msk of
                  Inl e \<Rightarrow> Inl e
                | Inr label \<Rightarrow>
                    (case eq_sum pred label of
                       Inl e \<Rightarrow> Inl e
                     | Inr k \<Rightarrow>
                         if mask_sum msk = 0 then Inl ZeroDivisionError
                         else Inr (real k / real (mask_sum msk))))))"

text \<open>Lines 253-276: the evaluation on one sample of the test loader.\<close>

definition eval_step :: "train_state \<Rightarrow> graph_data \<Rightarrow> error + train_state" where
  "eval_step s d =
     (case GGNN_forward (model s) d of
        Inl e \<Rightarrow> Inl e
      | Inr (emb_x, logits) \<Rightarrow>
          (case split_accuracy logits d (train_mask d) of
             Inl e \<Rightarrow> Inl e
           | Inr train_acc \<Rightarrow>
               (case split_accuracy logits d (val_mask d) of
                  Inl e \<Rightarrow> Inl e
                | Inr val_acc \<Rightarrow>
                    (case split_accuracy logits d (test_mask d) of
                       Inl e \<Rightarrow> Inl e
                     | Inr test_acc \<Rightarrow>
                         (case best_accs s of
                            (b0, b1, b2) \<Rightarrow>
                              Inr (s\<lparr>best_accs := (max b0 train_acc, max b1 val_acc, max b2 test_acc),
                                     accs := Some (train_acc, val_acc, test_acc),
                                     model := (model s)\<lparr>best_acc := max b2 test_acc\<rparr>\<rparr>))))))"

fun eval_loop :: "graph_data list \<Rightarrow> train_state \<Rightarrow> error + train_state" where
  "eval_loop [] s = Inr s"
| "eval_loop (d # ds) s =
     (case eval_step s d of Inl e \<Rightarrow> Inl e | Inr s' \<Rightarrow> eval_loop ds s')"

text \<open>
  Lines 225-283: one epoch after its progress line. The report of line 278 reads
  train_acc, val_acc and test_acc, which are unbound if no evaluation has run yet.
\<close>

definition epoch_step :: "train_env \<Rightarrow> int \<Rightarrow> train_state \<Rightarrow> error + train_state" where
  "epoch_step env epoch s =
     (let s1 = s\<lparr>requirements := computeStats env (epoch - 1) (num_cpus env) (requirements s)\<rparr>
      in case batch_loop env (batches (the_loader env)) s1 of
           Inl e \<Rightarrow> Inl e
         | Inr s2 \<Rightarrow>
             if length (dataset (the_loader env)) = 0 then Inl ZeroDivisionError
             else (let s3 = s2\<lparr>tot_loss := tot_loss s2 / real (length (dataset (the_loader env)))\<rparr>
                   in if epoch mod 10 = 0
                      then (case eval_loop (batches (the_loader env)) s3 of
                              Inl e \<Rightarrow> Inl e
                            | Inr s4 \<Rightarrow>
                                (case accs s4 of
                                   None \<Rightarrow> Inl UnboundLocalError
                                 | Some a \<Rightarrow> Inr s4))
                      else Inr s3))"

text \<open>Line 222: \<open>for epoch in range(1, epochs + 1)\<close>, over the epochs still to come.\<close>

fun epochs_loop ::
  "train_env \<Rightarrow> int list \<Rightarrow> train_state \<Rightarrow> world \<Rightarrow> (error + train_state) \<times> world" where
  "epochs_loop env [] s w = (Inr s, w)"
| "epochs_loop env (epoch # rest) s w =
     (let w1 = w\<lparr>stdout := stdout w @ [Processing_Epoch epoch]\<rparr>
      in case epoch_step env epoch s of
           Inl e \<Rightarrow> (Inl e, w1)
         | Inr s' \<Rightarrow> epochs_loop env rest s' w1)"

definition file_path :: string where
  "file_path = ''Train/comp_per_model/GGNN.py_requirements.json''"

text \<open>Lines 186-196: the dictionary the run starts from.\<close>

definition load_requirements :: "world \<Rightarrow> error + json" where
  "load_requirements w =
     (case files w file_path of
        None \<Rightarrow> Inr (JDict [])
      | Some (JsonFile j) \<Rightarrow> Inr j
      | Some other \<Rightarrow> Inl JSONDecodeError)"

text \<open>
  \<open>train(dataset, epochs, num_conv)\<close> of GGNN_Train.py: the result, and the world it leaves
  (also when it raises).
\<close>

definition train :: "train_env \<Rightarrow> int \<Rightarrow> int \<Rightarrow> world \<Rightarrow> (error + GGNN) \<times> world" where
  "train env epochs num_conv w =
     (case GGNN_init (modules env) (dataset_in_channels env) (Some 32) num_conv of
        Inl e \<Rightarrow> (Inl e, w)
      | Inr model0 \<Rightarrow>
          (case load_requirements w of
             Inl e \<Rightarrow> (Inl e, w)
           | Inr req0 \<Rightarrow>
               (let s0 = \<lparr>model = model0, tot_loss = 0, best_accs = (0, 0, 0),
                          requirements = computeStats env (- 1) (- 1) req0, accs = None\<rparr>
                in case epochs_loop env [1..epochs] s0 w of
                     (Inl e, w1) \<Rightarrow> (Inl e, w1)
                   | (Inr s, w1) \<Rightarrow>
                       (Inr (model s),
                        w1\<lparr>files := (files w1)(file_path \<mapsto> JsonFile (requirements s))\<rparr>))))"

text \<open>
  The calls of \<open>computeStats\<close> a complete run of \<open>epochs\<close> epochs makes on the dictionary
  \<open>r0\<close> it starts from: line 208 once, then line 228 once per epoch.
\<close>

definition telemetry_run :: "train_env \<Rightarrow> int \<Rightarrow> json \<Rightarrow> json" where
  "telemetry_run env epochs r0 =
     fold (\<lambda>epoch r. computeStats env (epoch - 1) (num_cpus env) r) [1..epochs]
       (computeStats env (- 1) (- 1) r0)"

text \<open>
  \<open>visualization_nodembs\<close>, lines 309-315: a forward pass and a colour per label for each
  sample, in the order of the dataset; there are seven colours, and \<open>torch.cat\<close> fails on
  an empty list. The projection and the plot are the libraries'.
\<close>

fun viz_loop :: "GGNN \<Rightarrow> graph_data list \<Rightarrow> error + unit" where
  "viz_loop m [] = Inr ()"
| "viz_loop m (d # ds) =
     (case GGNN_forward m d of
        Inl e \<Rightarrow> Inl e
      | Inr r \<Rightarrow> if list_all (\<lambda>y. y < 7) (data_y d) then viz_loop m ds else Inl IndexError)"

definition visualization_nodembs :: "train_env \<Rightarrow> GGNN \<Rightarrow> error + unit" where
  "visualization_nodembs env m =
     (case viz_loop m (dataset (the_loader env)) of
        Inl e \<Rightarrow> Inl e
      | Inr u \<Rightarrow> if dataset (the_loader env) = [] then Inl RuntimeError else Inr ())"

text \<open>
  Lines 333-335 and 362: the command line. A flag holds the integer \<open>type=int\<close> made of
  its text, or None when it is absent.
\<close>

record cli =
  epoch_flag :: "int option"
  conv_flag :: "int option"

record args =
  args_epoch :: int
  args_conv :: int

definition parse_args :: "cli \<Rightarrow> args" where
  "parse_args c =
     \<lparr>args_epoch = (case epoch_flag c of None \<Rightarrow> 100 | Some e \<Rightarrow> e),
      args_conv = (case conv_flag c of None \<Rightarrow> 3 | Some k \<Rightarrow> k)\<rparr>"

text \<open>Lines 362-369: the script.\<close>

definition GGNN_main :: "train_env \<Rightarrow> cli \<Rightarrow> world \<Rightarrow> (error + unit) \<times> world" where
  "GGNN_main env c w =
     (let a = parse_args c
      in case train env (args_epoch a) (args_conv a) w of
           (Inl e, w1) \<Rightarrow> (Inl e, w1)
         | (Inr m, w1) \<Rightarrow>
             (case visualization_nodembs env m of
                Inl e \<Rightarrow> (Inl e, w1)
              | Inr u \<Rightarrow> (Inr (), w1)))"


section \<open>GNN.py: the training loop and the script\<close>

text \<open>
  What a run of GNN.py is given: the framework's functions, the layers and the head it
  builds, the training and the test loader (one and the same for node classification),
  the loss, the effect of one optimiser step on the model, the number of node features
  of the dataset, and the time stamp of the log directory.
\<close>

record gnn_env =
  fw :: torch
  new_conv :: "nat \<Rightarrow> string \<Rightarrow> nat \<Rightarrow> nat \<Rightarrow> conv_layer"
  new_post_mp :: "tensor \<Rightarrow> tensor"
  gnn_loader :: loader
  gnn_test_loader :: loader
  nll_loss :: "tensor \<Rightarrow> nat list \<Rightarrow> real"
  opt_step :: "GCN \<Rightarrow> graph_data \<Rightarrow> GCN"
  dataset_num_node_features :: nat
  now :: string

text \<open>
  \<open>SummaryWriter(dir)\<close> creates the log directory unless it is there, and
  \<open>writer.add_scalar(tag, value, step)\<close> appends to it.
\<close>

definition SummaryWriter :: "world \<Rightarrow> string \<Rightarrow> world" where
  "SummaryWriter w dir =
     (case files w dir of
        Some (EventFile l) \<Rightarrow> w
      | other \<Rightarrow> w\<lparr>files := (files w)(dir \<mapsto> EventFile [])\<rparr>)"

definition add_scalar :: "world \<Rightarrow> string \<Rightarrow> string \<Rightarrow> real \<Rightarrow> int \<Rightarrow> world" where
  "add_scalar w dir tag v step =
     w\<lparr>files := (files w)(dir \<mapsto> EventFile
          ((case files w dir of Some (EventFile l) \<Rightarrow> l | other \<Rightarrow> []) @ [(tag, v, step)]))\<rparr>"

text \<open>Lines 157-177 of \<open>train\<close>: one batch, from the model and the loss accumulated so far.\<close>

definition gnn_batch_step ::
  "gnn_env \<Rightarrow> string \<Rightarrow> GCN \<times> real \<Rightarrow> graph_data \<Rightarrow> error + GCN \<times> real" where
  "gnn_batch_step env task0 s d =
     (case s of
        (m, total_loss) \<Rightarrow>
          (case GCN_forward (fw env) m d of
             Inl e \<Rightarrow> Inl e
           | Inr (embedding, pred) \<Rightarrow>
               (case (if task0 = ''node''
                      then (case mask_rows pred (train_mask d) of
                              Inl e \<Rightarrow> Inl e
                            | Inr pred' \<Rightarrow>
                                (case mask_select (data_y d) (train_mask d) of
                                   Inl e \<Rightarrow> Inl e
                                 | Inr label' \<Rightarrow> Inr (pred', label')))
                      else Inr (pred, data_y d)) of
                  Inl e \<Rightarrow> Inl e
                | Inr (pred', label') \<Rightarrow>
                    Inr (opt_step env m d,
                         total_loss + nll_loss env pred' label' * real (num_graphs d)))))"

fun gnn_batch_loop ::
  "gnn_env \<Rightarrow> string \<Rightarrow> graph_data list \<Rightarrow> GCN \<times> real \<Rightarrow> error + GCN \<times> real" where
  "gnn_batch_loop env task0 [] s = Inr s"
| "gnn_batch_loop env task0 (d # ds) s =
     (case gnn_batch_step env task0 s d of
        Inl e \<Rightarrow> Inl e
      | Inr s' \<Rightarrow> gnn_batch_loop env task0 ds s')"

text \<open>Lines 154-195: one epoch; \<open>test\<close> leaves the model in evaluation mode.\<close>

definition gnn_epoch ::
  "gnn_env \<Rightarrow> string \<Rightarrow> string \<Rightarrow> int \<Rightarrow> GCN \<Rightarrow> world \<Rightarrow> (error + GCN) \<times> world" where
  "gnn_epoch env task0 dir epoch m w =
     (case gnn_batch_loop env task0 (batches (gnn_loader env)) (m\<lparr>training := True\<rparr>, 0) of
        Inl e \<Rightarrow> (Inl e, w)
      | Inr (m1, acc_loss) \<Rightarrow>
          if length (dataset (gnn_loader env)) = 0 then (Inl ZeroDivisionError, w)
          else (let total_loss = acc_loss / real (length (dataset (gnn_loader env)));
                    w1 = add_scalar w dir ''Loss'' total_loss epoch
                in if epoch mod 10 = 0
                   then (case test (fw env) (gnn_test_loader env) m1 False of
                           Inl e \<Rightarrow> (Inl e, w1)
                         | Inr test_acc \<Rightarrow>
                             (Inr (m1\<lparr>training := False\<rparr>),
                              add_scalar w1 dir ''test accuracy'' test_acc epoch))
                   else (Inr m1, w1)))"

fun gnn_epochs_loop ::
  "gnn_env \<Rightarrow> string \<Rightarrow> string \<Rightarrow> int list \<Rightarrow> GCN \<Rightarrow> world \<Rightarrow> (error + GCN) \<times> world" where
  "gnn_epochs_loop env task0 dir [] m w = (Inr m, w)"
| "gnn_epochs_loop env task0 dir (epoch # rest) m w =
     (case gnn_epoch env task0 dir epoch m w of
        (Inl e, w1) \<Rightarrow> (Inl e, w1)
      | (Inr m1, w1) \<Rightarrow> gnn_epochs_loop env task0 dir rest m1 w1)"

text \<open>
  \<open>train(dataset, task, conv_layer, writer, epochs)\<close> of GNN.py; the writer is given by
  its log directory.
\<close>

definition GNN_train ::
  "gnn_env \<Rightarrow> string \<Rightarrow> int \<Rightarrow> string \<Rightarrow> int \<Rightarrow> world \<Rightarrow> (error + GCN) \<times> world" where
  "GNN_train env task0 conv_layer dir epochs w =
     (let m0 = GCN_init (new_conv env) (new_post_mp env)
                 (max (dataset_num_node_features env) 1) 32 conv_layer (1 / 4) task0
      in gnn_epochs_loop env task0 dir [0..epochs - 1] m0 w)"

text \<open>\<open>visualization_nodembs\<close> of GNN.py, lines 242-249.\<close>

fun gnn_viz_loop :: "torch \<Rightarrow> GCN \<Rightarrow> graph_data list \<Rightarrow> error + unit" where
  "gnn_viz_loop t m [] = Inr ()"
| "gnn_viz_loop t m (d # ds) =
     (case GCN_forward t m d of
        Inl e \<Rightarrow> Inl e
      | Inr r \<Rightarrow> if list_all (\<lambda>y. y < 7) (data_y d) then gnn_viz_loop t m ds else Inl IndexError)"

definition gnn_visualization :: "gnn_env \<Rightarrow> GCN \<Rightarrow> error + unit" where
  "gnn_visualization env m =
     (case gnn_viz_loop (fw env) m (batches (gnn_loader env)) of
        Inl e \<Rightarrow> Inl e
      | Inr u \<Rightarrow> if batches (gnn_loader env) = [] then Inl RuntimeError else Inr ())"

text \<open>Lines 259-267: the script.\<close>

definition log_dir :: "gnn_env \<Rightarrow> string" where
  "log_dir env = ''GNN_Basics/log/'' @ now env"

definition GNN_main :: "gnn_env \<Rightarrow> world \<Rightarrow> (error + unit) \<times> world" where
  "GNN_main env w =
     (case GNN_train env ''node'' 6 (log_dir env) 100 (SummaryWriter w (log_dir env)) of
        (Inl e, w1) \<Rightarrow> (Inl e, w1)
      | (Inr m, w1) \<Rightarrow>
          (case gnn_visualization env m of
             Inl e \<Rightarrow> (Inl e, w1)
           | Inr u \<Rightarrow> (Inr (), w1)))"


section \<open>Concrete inputs\<close>

text \<open>Small layers and inputs on which the theorems below are instantiated.\<close>

definition ex_conv :: GatedGraphConv where
  "ex_conv = \<lparr>out_channels = 2, num_layers = 2,
     weight = [\<lparr>size0 = 2, size1 = 2, vals = [[1, 0], [0, 1]]\<rparr>,
               \<lparr>size0 = 2, size1 = 2, vals = [[2, 0], [0, 2]]\<rparr>],
     rnn = (\<lambda>m h. tabulate (size0 h) 2 (\<lambda>i j. entry m i j + entry h i j)),
     propagate = (\<lambda>m. m)\<rparr>"

definition ex_x :: tensor where
  "ex_x = \<lparr>size0 = 1, size1 = 1, vals = [[3]]\<rparr>"

definition ex_adgn :: ADGNConv where
  "ex_adgn = \<lparr>in_channels = 2, conv_out_channels = 2, gamma = 1 / 10, epsilon = 1 / 10,
     antisymmetry = True,
     Weights = \<lparr>size0 = 2, size1 = 2, vals = [[1, 2], [3, 4]]\<rparr>,
     bias = [0, 0], Identity = eye 2,
     linear_weight = \<lparr>size0 = 2, size1 = 2, vals = [[1, 0], [0, 1]]\<rparr>\<rparr>"


definition ex_torch :: torch where
  "ex_torch = \<lparr>dropout = (\<lambda>p tr t. t), global_max_pool = (\<lambda>t b. t)\<rparr>"

definition ex_gcn :: GCN where
  "ex_gcn = GCN_init (\<lambda>k t i h x e. x) (\<lambda>t. t) 2 2 0 (1 / 4) ''node''"

definition ex_graph :: graph_data where
  "ex_graph = \<lparr>data_x = Some \<lparr>size0 = 2, size1 = 2, vals = [[1, 0], [0, 1]]\<rparr>,
     edge_index = [], batch = [0, 0], data_y = [0, 1],
     train_mask = [False, False], val_mask = [True, False], test_mask = [True, True],
     num_nodes = 2, num_graphs = 1\<rparr>"

definition ex_loader :: loader where
  "ex_loader = \<lparr>batches = [ex_graph], dataset = [ex_graph]\<rparr>"

definition ex_bare :: graph_data where
  "ex_bare = \<lparr>data_x = None, edge_index = [], batch = [0, 0], data_y = [0, 1],
     train_mask = [True, False], val_mask = [False, False], test_mask = [False, True],
     num_nodes = 2, num_graphs = 1\<rparr>"


section \<open>Properties\<close>

subsection \<open>Tensors\<close>

lemma entry_tabulate: "i < n \<Longrightarrow> j < m \<Longrightarrow> entry (tabulate n m g) i j = g i j"
  by (simp add: entry_def tabulate_def)

lemma size_tabulate: "size0 (tabulate n m g) = n" "size1 (tabulate n m g) = m"
  by (simp_all add: tabulate_def)


lemma tabulate_cong: "(\<And>i j. i < n \<Longrightarrow> j < m \<Longrightarrow> g i j = h i j) \<Longrightarrow> tabulate n m g = tabulate n m h"
  by (simp add: tabulate_def)

lemma tmap_tabulate: "tmap f (tabulate n m g) = tabulate n m (\<lambda>i j. f (g i j))"
  by (simp add: tmap_def tabulate_def comp_def)

lemma wf_tensor_tabulate: "wf_tensor t \<Longrightarrow> t = tabulate (size0 t) (size1 t) (entry t)"
proof -
  assume w: "wf_tensor t"
  have "vals t = map (\<lambda>i. map (\<lambda>j. vals t ! i ! j) [0..<size1 t]) [0..<size0 t]"
  proof (rule nth_equalityI)
    show "length (vals t) = length (map (\<lambda>i. map (\<lambda>j. vals t ! i ! j) [0..<size1 t]) [0..<size0 t])"
      using w by (simp add: wf_tensor_def)
  next
    fix i assume i: "i < length (vals t)"
    then have l: "length (vals t ! i) = size1 t" using w by (simp add: wf_tensor_def list_all_length)
    have i0: "i < size0 t" using i w by (simp add: wf_tensor_def)
    have "vals t ! i = map (\<lambda>j. vals t ! i ! j) [0..<size1 t]"
      using l by (metis map_nth)
    then show "vals t ! i = map (\<lambda>i. map (\<lambda>j. vals t ! i ! j) [0..<size1 t]) [0..<size0 t] ! i"
      using i0 by simp
  qed
  then show ?thesis by (simp add: tabulate_def entry_def)
qed

lemma bidx_id: "i < n \<Longrightarrow> bidx n i = i"
  by (auto simp: bidx_def)

lemma broadcast2_same:
  "size0 a = size0 b \<Longrightarrow> size1 a = size1 b \<Longrightarrow>
   broadcast2 f a b = Inr (tabulate (size0 a) (size1 a) (\<lambda>i j. f (entry a i j) (entry b i j)))"
  by (auto simp: broadcast2_def bdim_def bidx_id intro!: tabulate_cong)

lemma broadcast2_tabulate:
  "broadcast2 f (tabulate n m g) (tabulate n m h) = Inr (tabulate n m (\<lambda>i j. f (g i j) (h i j)))"
  by (auto simp: broadcast2_same size_tabulate entry_tabulate intro!: tabulate_cong)

lemma tensor_T_tabulate: "tensor_T (tabulate n m g) = tabulate m n (\<lambda>i j. g j i)"
  by (auto simp: tensor_T_def size_tabulate entry_tabulate intro!: tabulate_cong)

lemma smul_tabulate: "smul k (tabulate n m g) = tabulate n m (\<lambda>i j. k * g i j)"
  by (simp add: smul_def tmap_tabulate)

subsection \<open>ADGN_Message.py: the antisymmetric convolution\<close>

lemma effective_W_antisymmetric:
  assumes ok: "ADGNConv_ok c" and anti: "antisymmetry c"
  shows "effective_W c =
     Inr (tabulate (in_channels c) (in_channels c)
           (\<lambda>i j. entry (Weights c) i j - entry (Weights c) j i - gamma c * (if i = j then 1 else 0)))"
proof -
  let ?n = "in_channels c"
  have W: "Weights c = tabulate ?n ?n (entry (Weights c))"
    using ok wf_tensor_tabulate [of "Weights c"] by (simp add: ADGNConv_ok_def)
  have I: "Identity c = eye ?n" using ok by (simp add: ADGNConv_ok_def)
  have d: "sub (Weights c) (tensor_T (Weights c)) =
      Inr (tabulate ?n ?n (\<lambda>i j. entry (Weights c) i j - entry (Weights c) j i))"
    by (subst (1 2) W) (simp add: sub_def tensor_T_tabulate broadcast2_tabulate)
  show ?thesis
    by (simp add: effective_W_def anti d I eye_def smul_tabulate)
       (simp add: sub_def broadcast2_tabulate)
qed








text \<open>
  C2: for a layer as \<open>__init__\<close> builds it, with \<open>antisymmetry=True\<close> the weight \<open>W\<close>
  that \<open>forward\<close> uses is \<open>(Weights - Weights.T) - gamma * I\<close>, computed without a shape
  error; \<open>W + gamma * I\<close> is antisymmetric and \<open>W + W.T = - 2 * gamma * I\<close>. With
  \<open>antisymmetry=False\<close>, \<open>W\<close> is \<open>Weights\<close> unchanged.
\<close>

theorem ADGNConv_antisymmetric_weight:
  assumes ok: "ADGNConv_ok c"
  shows "(antisymmetry c \<longrightarrow>
           (\<exists>D W A. sub (Weights c) (tensor_T (Weights c)) = Inr D \<and>
                    sub D (smul (gamma c) (eye (in_channels c))) = Inr W \<and>
                    effective_W c = Inr W \<and>
                    add W (smul (gamma c) (eye (in_channels c))) = Inr A \<and>
                    tensor_T A = smul (- 1) A \<and>
                    add W (tensor_T W) = Inr (smul (- 2 * gamma c) (eye (in_channels c))))) \<and>
         (\<not> antisymmetry c \<longrightarrow> effective_W c = Inr (Weights c))"
proof (intro conjI impI)
  assume anti: "antisymmetry c"
  let ?n = "in_channels c"
  let ?w = "entry (Weights c)"
  let ?D = "tabulate ?n ?n (\<lambda>i j. ?w i j - ?w j i)"
  let ?W = "tabulate ?n ?n (\<lambda>i j. ?w i j - ?w j i - gamma c * (if i = j then 1 else 0))"
  have Wt: "Weights c = tabulate ?n ?n ?w"
    using ok wf_tensor_tabulate [of "Weights c"] by (simp add: ADGNConv_ok_def)
  have d: "sub (Weights c) (tensor_T (Weights c)) = Inr ?D"
    by (subst (1 2) Wt) (simp add: sub_def tensor_T_tabulate broadcast2_tabulate)
  have g: "smul (gamma c) (eye ?n) = tabulate ?n ?n (\<lambda>i j. gamma c * (if i = j then 1 else 0))"
    by (simp add: eye_def smul_tabulate)
  have w: "sub ?D (smul (gamma c) (eye ?n)) = Inr ?W"
    by (simp add: g sub_def broadcast2_tabulate)
  have e: "effective_W c = Inr ?W"
    by (rule effective_W_antisymmetric [OF ok anti])
  have a: "add ?W (smul (gamma c) (eye ?n)) = Inr ?D"
    by (simp add: g add_def broadcast2_tabulate)
  have t: "tensor_T ?D = smul (- 1) ?D"
    by (simp add: tensor_T_tabulate smul_tabulate)
  have s: "add ?W (tensor_T ?W) = Inr (smul (- 2 * gamma c) (eye ?n))"
    by (auto simp: tensor_T_tabulate add_def broadcast2_tabulate eye_def smul_tabulate
          intro!: tabulate_cong)
  show "\<exists>D W A. sub (Weights c) (tensor_T (Weights c)) = Inr D \<and>
                    sub D (smul (gamma c) (eye (in_channels c))) = Inr W \<and>
                    effective_W c = Inr W \<and>
                    add W (smul (gamma c) (eye (in_channels c))) = Inr A \<and>
                    tensor_T A = smul (- 1) A \<and>
                    add W (tensor_T W) = Inr (smul (- 2 * gamma c) (eye (in_channels c)))"
    by (intro exI conjI) (rule d, rule w, rule e, rule a, rule t, rule s)
next
  assume "\<not> antisymmetry c"
  then show "effective_W c = Inr (Weights c)" by (simp add: effective_W_def)
qed

theorem ADGNConv_antisymmetric_weight_witness:
  "ADGNConv_ok ex_adgn \<and> antisymmetry ex_adgn \<and>
   effective_W ex_adgn = Inr \<lparr>size0 = 2, size1 = 2, vals = [[- (1 / 10), - 1], [1, - (1 / 10)]]\<rparr> \<and>
   (\<exists>W. effective_W ex_adgn = Inr W \<and>
        add W (tensor_T W) = Inr (smul (- 2 * gamma ex_adgn) (eye (in_channels ex_adgn))))"
proof -
  have ok: "ADGNConv_ok ex_adgn"
    by (simp add: ADGNConv_ok_def ex_adgn_def wf_tensor_def)
  have anti: "antisymmetry ex_adgn" by (simp add: ex_adgn_def)
  have v: "effective_W ex_adgn =
      Inr \<lparr>size0 = 2, size1 = 2, vals = [[- (1 / 10), - 1], [1, - (1 / 10)]]\<rparr>"
    by (simp add: effective_W_def ex_adgn_def sub_def broadcast2_def bdim_def bidx_def
          tensor_T_def tabulate_def entry_def eye_def smul_def tmap_def upt_rec)
  from ADGNConv_antisymmetric_weight [OF ok] anti have
    "\<exists>W. effective_W ex_adgn = Inr W \<and>
        add W (tensor_T W) = Inr (smul (- 2 * gamma ex_adgn) (eye (in_channels ex_adgn)))"
    by blast
  with ok anti v show ?thesis by blast
qed

lemma effective_W_shape:
  assumes ok: "ADGNConv_ok c"
  shows "\<exists>W. effective_W c = Inr W \<and> size0 W = in_channels c \<and> size1 W = in_channels c"
proof (cases "antisymmetry c")
  case True
  then show ?thesis using effective_W_antisymmetric [OF ok True] by (simp add: size_tabulate)
next
  case False
  then show ?thesis using ok by (simp add: effective_W_def ADGNConv_ok_def)
qed

lemma aggr_x_shape:
  assumes lw: "size1 (linear_weight c) = size1 x"
    and es: "list_all (\<lambda>(r, c). r < size0 x \<and> c < size0 x) es"
  shows "\<exists>a. aggr_x c x es = Inr a \<and> size0 a = size0 x \<and> size1 a = size0 (linear_weight c)"
proof -
  let ?es = "add_self_loops es (size0 x)"
  have l: "linear c x = Inr (mm x (tensor_T (linear_weight c)))"
    using lw by (simp add: linear_def matmul_def tensor_T_def size_tabulate)
  have e2: "list_all (\<lambda>(r, c). r < size0 x \<and> c < size0 x) ?es"
    using es by (auto simp: add_self_loops_def list_all_iff)
  then have e1: "list_all (\<lambda>r. r < size0 x) (map fst ?es)"
    by (auto simp: list_all_iff)
  show ?thesis
    using e1 e2
    by (simp add: aggr_x_def l Let_def mm_def degree_def edge_norm_def propagate_add_def
          size_tabulate tensor_T_def)
qed

lemma ADGNConv_forward_returns:
  assumes ok: "ADGNConv_ok c"
    and lw: "size0 (linear_weight c) = in_channels c" "size1 (linear_weight c) = in_channels c"
    and b: "length (bias c) = in_channels c"
    and x: "size1 x = in_channels c"
    and es: "list_all (\<lambda>(r, c). r < size0 x \<and> c < size0 x) es"
  shows "\<exists>y. ADGNConv_forward c x es = Inr y \<and> size0 y = size0 x \<and> size1 y = size1 x"
proof -
  from effective_W_shape [OF ok] obtain W where W: "effective_W c = Inr W"
    "size0 W = in_channels c" "size1 W = in_channels c" by blast
  from aggr_x_shape [of c x es] lw x es obtain a where a: "aggr_x c x es = Inr a"
    "size0 a = size0 x" "size1 a = in_channels c" by auto
  have m: "matmul x W = Inr (mm x W)" using x W by (simp add: matmul_def)
  have s1: "add (mm x W) a = Inr (tabulate (size0 x) (in_channels c)
              (\<lambda>i j. entry (mm x W) i j + entry a i j))"
    using a W by (simp add: add_def broadcast2_same mm_def)
  have "bdim (size0 x) 1 = Some (size0 x)" by (simp add: bdim_def)
  then have s2: "\<exists>z. add (tabulate (size0 x) (in_channels c)
              (\<lambda>i j. entry (mm x W) i j + entry a i j)) (row_tensor (bias c)) = Inr z \<and>
            size0 z = size0 x \<and> size1 z = in_channels c"
    using b by (simp add: add_def broadcast2_def row_tensor_def size_tabulate bdim_def)
  obtain z where z: "pre_activation c x es = Inr z" "size0 z = size0 x" "size1 z = in_channels c"
    using W(1) a(1) m s1 s2 by (auto simp: pre_activation_def)
  have "size0 (smul (epsilon c) (tmap tanh z)) = size0 x" "size1 (smul (epsilon c) (tmap tanh z)) = size1 x"
    using z x by (simp_all add: smul_def tmap_def)
  then show ?thesis
    by (simp add: ADGNConv_forward_def z add_def broadcast2_same size_tabulate)
qed



subsection \<open>GGNN_Train.py: the gated graph convolution\<close>

lemma pad_width: "size1 x \<le> out_channels c \<Longrightarrow> \<exists>x0. pad c x = Inr x0 \<and> size1 x0 = out_channels c \<and> size0 x0 = size0 x"
  by (auto simp: pad_def cat_dim1_def new_zeros_def)

lemma pad_not_ValueError: "pad c x \<noteq> Inl (ValueError msg)"
  by (simp add: pad_def cat_dim1_def new_zeros_def)

lemma body_not_ValueError: "body c i x \<noteq> Inl (ValueError msg)"
  by (simp add: body_def matmul_def Let_def)

lemma loop_not_ValueError: "loop c ns s \<noteq> Inl (ValueError msg)"
proof (induction ns arbitrary: s)
  case Nil
  show ?case by simp
next
  case (Cons i ns)
  obtain x tr where s: "s = (x, tr)" by (cases s)
  show ?case using Cons body_not_ValueError [of c i x msg]
    by (auto simp: s split: sum.splits)
qed

lemma forward_ValueError_iff:
  "(\<exists>msg. GatedGraphConv_forward c x = Inl (ValueError msg)) \<longleftrightarrow> out_channels c < size1 x"
proof
  assume "\<exists>msg. GatedGraphConv_forward c x = Inl (ValueError msg)"
  then obtain msg where m: "GatedGraphConv_forward c x = Inl (ValueError msg)" ..
  show "out_channels c < size1 x"
  proof (rule ccontr)
    assume n: "\<not> out_channels c < size1 x"
    from m n pad_not_ValueError [of c x msg] show False
      using loop_not_ValueError [of c "[0..<num_layers c]" _ msg]
      by (auto simp: GatedGraphConv_forward_def forward_log_def map_sum_def split: sum.splits)
  qed
next
  assume "out_channels c < size1 x"
  then show "\<exists>msg. GatedGraphConv_forward c x = Inl (ValueError msg)"
    by (simp add: GatedGraphConv_forward_def forward_log_def)
qed

lemma body_ok:
  assumes "i < length (weight c)" "size0 (weight c ! i) = size1 x"
  shows "body c i x = Inr (rnn c (propagate c (mm x (weight c ! i))) x,
           [Matmul x i, Propagate (mm x (weight c ! i)), Rnn (propagate c (mm x (weight c ! i))) x])"
  using assms by (simp add: body_def matmul_def Let_def)

lemma unrolled_width:
  assumes "\<forall>m h. size1 (rnn c m h) = out_channels c" "size1 x0 = out_channels c"
  shows "size1 (unrolled c k x0) = out_channels c"
  using assms by (cases k) (simp_all add: Let_def)

lemma loop_unrolled:
  assumes w: "weight_ok c" and r: "\<forall>m h. size1 (rnn c m h) = out_channels c"
    and x0: "size1 x0 = out_channels c"
  shows "k + n \<le> num_layers c \<Longrightarrow>
     loop c [k..<k + n] (unrolled c k x0, tr) =
       Inr (unrolled c (k + n) x0, tr @ concat (map (step_calls c x0) [k..<k + n]))"
proof (induction n arbitrary: k tr)
  case 0
  show ?case by simp
next
  case (Suc n)
  have k: "k < length (weight c)" using Suc.prems w by (simp add: weight_ok_def)
  have "size0 (weight c ! k) = out_channels c"
    using w k by (simp add: weight_ok_def list_all_length)
  then have sz: "size0 (weight c ! k) = size1 (unrolled c k x0)"
    using unrolled_width [OF r x0] by simp
  have up: "[k..<k + Suc n] = k # [Suc k..<Suc k + n]"
    by (simp add: upt_conv_Cons)
  have "Suc k + n \<le> num_layers c" using Suc.prems by simp
  from Suc.IH [OF this] show ?case
    unfolding up by (simp add: body_ok [OF k sz] step_calls_def Let_def)
qed

text \<open>
  C3: with \<open>num_layers = T\<close>, a weight of the shape \<open>__init__\<close> gives it and a GRU cell
  that returns \<open>out_channels\<close> features, \<open>forward\<close> returns on every input of at most
  \<open>out_channels\<close> features, and what it returns is the state after \<open>T\<close> steps of the
  recurrence; it makes exactly the calls of \<open>T\<close> iterations, in order: for each
  \<open>i < T\<close> one multiplication of the current state by \<open>weight[i]\<close>, one propagation,
  one update by the GRU cell, \<open>3 * T\<close> calls in all.
\<close>

theorem GatedGraphConv_unrolled:
  assumes "weight_ok c" and "\<forall>m h. size1 (rnn c m h) = out_channels c"
    and "size1 x \<le> out_channels c"
  shows "\<exists>x0. pad c x = Inr x0 \<and>
           forward_log c x =
             Inr (unrolled c (num_layers c) x0,
                  concat (map (step_calls c x0) [0..<num_layers c])) \<and>
           GatedGraphConv_forward c x = Inr (unrolled c (num_layers c) x0) \<and>
           length (concat (map (step_calls c x0) [0..<num_layers c])) = 3 * num_layers c"
proof -
  from pad_width [OF assms(3)] obtain x0 where p: "pad c x = Inr x0"
    and w: "size1 x0 = out_channels c" by blast
  have "loop c [0..<0 + num_layers c] (unrolled c 0 x0, []) =
          Inr (unrolled c (0 + num_layers c) x0,
               [] @ concat (map (step_calls c x0) [0..<0 + num_layers c]))"
    by (rule loop_unrolled [OF assms(1) assms(2) w]) simp
  then have f: "forward_log c x =
      Inr (unrolled c (num_layers c) x0, concat (map (step_calls c x0) [0..<num_layers c]))"
    using assms(3) p by (simp add: forward_log_def)
  have l: "length (concat (map (step_calls c x0) [0..<n])) = 3 * n" for n
    by (induction n) (simp_all add: step_calls_def Let_def)
  show ?thesis using p f l by (simp add: GatedGraphConv_forward_def)
qed

theorem GatedGraphConv_unrolled_witness:
  "weight_ok ex_conv \<and> (\<forall>m h. size1 (rnn ex_conv m h) = out_channels ex_conv) \<and>
   size1 ex_x \<le> out_channels ex_conv \<and>
   GatedGraphConv_forward ex_conv ex_x = Inr \<lparr>size0 = 1, size1 = 2, vals = [[18, 0]]\<rparr> \<and>
   (\<exists>calls. forward_log ex_conv ex_x = Inr (\<lparr>size0 = 1, size1 = 2, vals = [[18, 0]]\<rparr>, calls) \<and> length calls = 6)"
proof -
  have h1: "weight_ok ex_conv" by (simp add: weight_ok_def ex_conv_def)
  have h2: "\<forall>m h. size1 (rnn ex_conv m h) = out_channels ex_conv"
    by (simp add: ex_conv_def tabulate_def)
  have h3: "size1 ex_x \<le> out_channels ex_conv" by (simp add: ex_conv_def ex_x_def)
  have p: "pad ex_conv ex_x = Inr \<lparr>size0 = 1, size1 = 2, vals = [[3, 0]]\<rparr>"
    by (simp add: pad_def ex_conv_def ex_x_def cat_dim1_def new_zeros_def)
  have u: "unrolled ex_conv (num_layers ex_conv) \<lparr>size0 = 1, size1 = 2, vals = [[3, 0]]\<rparr>
             = \<lparr>size0 = 1, size1 = 2, vals = [[18, 0]]\<rparr>"
    by (simp add: ex_conv_def eval_nat_numeral Let_def mm_def dot_def column_def tabulate_def entry_def upt_rec)
  have n: "num_layers ex_conv = 2" by (simp add: ex_conv_def)
  from GatedGraphConv_unrolled [OF h1 h2 h3] h1 h2 h3 p u n show ?thesis
    by auto
qed

lemma pad_value:
  assumes "wf_tensor x" and "size1 x < out_channels c"
  shows "pad c x = Inr \<lparr>size0 = size0 x, size1 = out_channels c,
            vals = map (\<lambda>r. r @ replicate (out_channels c - size1 x) 0) (vals x)\<rparr>"
proof -
  have "map2 (@) xs (replicate (length xs) z) = map (\<lambda>r. r @ z) xs" for xs :: "real list list" and z
    by (induction xs) simp_all
  from this [of "vals x"] assms show ?thesis
    by (simp add: pad_def cat_dim1_def new_zeros_def wf_tensor_def)
qed

text \<open>
  C8: an input of fewer than \<open>out_channels\<close> features is first padded on the right with
  \<open>out_channels - d\<close> zeros in every row; then every state the recurrence multiplies or
  hands to the GRU cell has \<open>out_channels\<close> features, and so has the tensor returned.
\<close>

theorem GatedGraphConv_pads:
  assumes "wf_tensor x" and "size1 x < out_channels c"
    and "weight_ok c" and "\<forall>m h. size1 (rnn c m h) = out_channels c"
  shows "\<exists>y calls.
           pad c x = Inr \<lparr>size0 = size0 x, size1 = out_channels c,
              vals = map (\<lambda>r. r @ replicate (out_channels c - size1 x) 0) (vals x)\<rparr> \<and>
           forward_log c x = Inr (y, calls) \<and>
           GatedGraphConv_forward c x = Inr y \<and>
           size1 y = out_channels c \<and>
           (\<forall>k \<in> set calls. \<forall>s. state_of k = Some s \<longrightarrow> size1 s = out_channels c)"
proof -
  let ?x0 = "\<lparr>size0 = size0 x, size1 = out_channels c,
              vals = map (\<lambda>r. r @ replicate (out_channels c - size1 x) 0) (vals x)\<rparr>"
  have p: "pad c x = Inr ?x0" by (rule pad_value [OF assms(1) assms(2)])
  have w: "size1 ?x0 = out_channels c" by simp
  have le: "size1 x \<le> out_channels c" using assms(2) by simp
  have "loop c [0..<0 + num_layers c] (unrolled c 0 ?x0, []) =
          Inr (unrolled c (0 + num_layers c) ?x0,
               [] @ concat (map (step_calls c ?x0) [0..<0 + num_layers c]))"
    by (rule loop_unrolled [OF assms(3) assms(4) w]) simp
  then have f: "forward_log c x =
      Inr (unrolled c (num_layers c) ?x0, concat (map (step_calls c ?x0) [0..<num_layers c]))"
    using le p by (simp add: forward_log_def)
  have u: "size1 (unrolled c k ?x0) = out_channels c" for k
    by (rule unrolled_width [OF assms(4) w])
  have s: "\<forall>k \<in> set (concat (map (step_calls c ?x0) [0..<num_layers c])).
             \<forall>s. state_of k = Some s \<longrightarrow> size1 s = out_channels c"
    using u by (auto simp: step_calls_def Let_def state_of_def)
  have g: "GatedGraphConv_forward c x = Inr (unrolled c (num_layers c) ?x0)"
    by (simp add: GatedGraphConv_forward_def f)
  show ?thesis
    by (intro exI conjI) (rule p, rule f, rule g, rule u, rule s)
qed

theorem GatedGraphConv_pads_witness:
  "wf_tensor ex_x \<and> size1 ex_x < out_channels ex_conv \<and> weight_ok ex_conv \<and>
   (\<forall>m h. size1 (rnn ex_conv m h) = out_channels ex_conv) \<and>
   pad ex_conv ex_x = Inr \<lparr>size0 = 1, size1 = 2, vals = [[3, 0]]\<rparr> \<and>
   (\<exists>y. GatedGraphConv_forward ex_conv ex_x = Inr y \<and> size1 y = 2)"
proof -
  have h0: "wf_tensor ex_x" by (simp add: wf_tensor_def ex_x_def)
  have h1: "weight_ok ex_conv" by (simp add: weight_ok_def ex_conv_def)
  have h2: "\<forall>m h. size1 (rnn ex_conv m h) = out_channels ex_conv"
    by (simp add: ex_conv_def tabulate_def)
  have h3: "size1 ex_x < out_channels ex_conv" by (simp add: ex_conv_def ex_x_def)
  have o: "out_channels ex_conv = 2" by (simp add: ex_conv_def)
  have v: "\<lparr>size0 = size0 ex_x, size1 = 2,
            vals = map (\<lambda>r. r @ replicate (2 - size1 ex_x) 0) (vals ex_x)\<rparr>
           = \<lparr>size0 = 1, size1 = 2, vals = [[3, 0]]\<rparr>"
    by (simp add: ex_x_def)
  from GatedGraphConv_pads [OF h0 h3 h1 h2] obtain y where
    "pad ex_conv ex_x = Inr \<lparr>size0 = 1, size1 = 2, vals = [[3, 0]]\<rparr>"
    "GatedGraphConv_forward ex_conv ex_x = Inr y" "size1 y = 2"
    unfolding o v by blast
  with h0 h1 h2 h3 show ?thesis by blast
qed


subsection \<open>GNN.py: the forward pass and the evaluation\<close>

lemma GCN_loop_returns:
  "\<forall>i \<in> set ns. i < length (convs m) \<Longrightarrow>
     \<exists>x e. GCN_loop tc m ei ns s = Inr (x, e) \<and> (ns \<noteq> [] \<or> snd s \<noteq> None \<longrightarrow> e \<noteq> None)"
proof (induction ns arbitrary: s)
  case Nil
  show ?case by (cases s) simp
next
  case (Cons i ns)
  obtain x e where s: "s = (x, e)" by (cases s)
  let ?x1 = "(convs m ! i) x ei"
  let ?s' = "(dropout tc (doutrate m) (training m) (relu ?x1), Some ?x1)"
  have i: "i < length (convs m)" using Cons.prems by simp
  have "\<forall>i \<in> set ns. i < length (convs m)" using Cons.prems by simp
  from Cons.IH [OF this, of ?s'] obtain x' e' where
    l: "GCN_loop tc m ei ns ?s' = Inr (x', e')" and e: "e' \<noteq> None" by auto
  show ?case using l e i by (simp add: s Let_def)
qed

lemma layer_stack_returns:
  assumes "0 \<le> conv_layers m" and "nat (GCN_num_layers m) \<le> length (convs m)"
  shows "\<exists>e out. layer_stack tc m d x0 = Inr (e, out)"
proof -
  let ?ns = "[0..<nat (GCN_num_layers m)]"
  have "\<forall>i \<in> set ?ns. i < length (convs m)" using assms(2) by auto
  from GCN_loop_returns [OF this, of tc "edge_index d" "(x0, None)"] obtain x e where
    l: "GCN_loop tc m (edge_index d) ?ns (x0, None) = Inr (x, e)" and n: "?ns \<noteq> [] \<longrightarrow> e \<noteq> None"
    by auto
  have "?ns \<noteq> []" using assms(1) by (simp add: GCN_num_layers_def)
  with n obtain e' where "e = Some e'" by auto
  with l show ?thesis by (simp add: layer_stack_def Let_def)
qed

lemma GCN_init_convs: "nat (GCN_num_layers (GCN_init nc mp a b n p t)) \<le> length (convs (GCN_init nc mp a b n p t))"
  by (simp add: GCN_init_def GCN_num_layers_def)

text \<open>
  C10: on a sample with zero node features \<open>GCN.forward\<close> runs its layer stack on the
  all-ones matrix of shape (num_nodes, 1) in the place of \<open>data.x\<close>, and returns its
  result for a model with the layers \<open>__init__\<close> builds (a number of layers that is not
  negative); on a sample with at least one node feature the stack runs on \<open>data.x\<close>
  itself.
\<close>

theorem GCN_forward_constant_feature:
  "(num_node_features d = 0 \<longrightarrow>
      GCN_forward tc m d = layer_stack tc m d (ones (num_nodes d) 1) \<and>
      size0 (ones (num_nodes d) 1) = num_nodes d \<and> size1 (ones (num_nodes d) 1) = 1 \<and>
      (0 \<le> conv_layers m \<and> nat (GCN_num_layers m) \<le> length (convs m) \<longrightarrow>
         (\<exists>e out. GCN_forward tc m d = Inr (e, out)))) \<and>
   (num_node_features d \<noteq> 0 \<longrightarrow>
      (\<exists>t. data_x d = Some t \<and> GCN_forward tc m d = layer_stack tc m d t))"
proof (intro conjI impI)
  assume z: "num_node_features d = 0"
  show f: "GCN_forward tc m d = layer_stack tc m d (ones (num_nodes d) 1)"
    using z by (simp add: GCN_forward_def)
  show "size0 (ones (num_nodes d) 1) = num_nodes d" "size1 (ones (num_nodes d) 1) = 1"
    by (simp_all add: ones_def size_tabulate)
  assume "0 \<le> conv_layers m \<and> nat (GCN_num_layers m) \<le> length (convs m)"
  then show "\<exists>e out. GCN_forward tc m d = Inr (e, out)"
    unfolding f using layer_stack_returns [of m tc d] by blast
next
  assume "num_node_features d \<noteq> 0"
  then show "\<exists>t. data_x d = Some t \<and> GCN_forward tc m d = layer_stack tc m d t"
    by (cases "data_x d") (simp_all add: GCN_forward_def num_node_features_def)
qed

theorem GCN_forward_constant_feature_witness:
  "num_node_features ex_bare = 0 \<and> 0 \<le> conv_layers ex_gcn \<and>
   nat (GCN_num_layers ex_gcn) \<le> length (convs ex_gcn) \<and>
   GCN_forward ex_torch ex_gcn ex_bare = layer_stack ex_torch ex_gcn ex_bare (ones 2 1) \<and>
   (\<exists>e out. GCN_forward ex_torch ex_gcn ex_bare = Inr (e, out)) \<and>
   num_node_features ex_graph \<noteq> 0 \<and>
   GCN_forward ex_torch ex_gcn ex_graph =
     layer_stack ex_torch ex_gcn ex_graph \<lparr>size0 = 2, size1 = 2, vals = [[1, 0], [0, 1]]\<rparr>"
proof -
  have h1: "num_node_features ex_bare = 0" by (simp add: num_node_features_def ex_bare_def)
  have h2: "0 \<le> conv_layers ex_gcn" by (simp add: ex_gcn_def GCN_init_def)
  have h3: "nat (GCN_num_layers ex_gcn) \<le> length (convs ex_gcn)"
    unfolding ex_gcn_def by (rule GCN_init_convs)
  have h4: "num_node_features ex_graph \<noteq> 0" by (simp add: num_node_features_def ex_graph_def)
  have n: "num_nodes ex_bare = 2" by (simp add: ex_bare_def)
  have x: "data_x ex_graph = Some \<lparr>size0 = 2, size1 = 2, vals = [[1, 0], [0, 1]]\<rparr>"
    by (simp add: ex_graph_def)
  from GCN_forward_constant_feature [of ex_bare ex_torch ex_gcn] h1 h2 h3
  have a: "GCN_forward ex_torch ex_gcn ex_bare = layer_stack ex_torch ex_gcn ex_bare (ones 2 1)"
    and b: "\<exists>e out. GCN_forward ex_torch ex_gcn ex_bare = Inr (e, out)"
    unfolding n by blast+
  from GCN_forward_constant_feature [of ex_graph ex_torch ex_gcn] h4 x
  have c: "GCN_forward ex_torch ex_gcn ex_graph =
     layer_stack ex_torch ex_gcn ex_graph \<lparr>size0 = 2, size1 = 2, vals = [[1, 0], [0, 1]]\<rparr>"
    by auto
  from h1 h2 h3 h4 a b c show ?thesis by blast
qed

text \<open>
  C4: \<open>test(loader, model, is_validation=True)\<close> of GNN.py counts the correct predictions
  over the validation mask and divides by the size of the test mask (line 229): on a graph
  of two nodes, both predicted correctly, one of them in the validation mask and both in
  the test mask, it returns 1/2, where the accuracy over the validation mask is 1.
\<close>

theorem test_validation_divides_by_test_mask:
  "test ex_torch ex_loader ex_gcn True = Inr (1 / 2) \<and>
   (\<exists>e logp. GCN_forward ex_torch (ex_gcn\<lparr>training := False\<rparr>) ex_graph = Inr (e, logp) \<and>
      argmax_dim1 logp = Inr [0, 1]) \<and>
   masked_accuracy [0, 1] (data_y ex_graph) (val_mask ex_graph) = 1"
proof -
  have a: "test ex_torch ex_loader ex_gcn True = Inr (1 / 2)"
    by (simp add: test_def ex_loader_def ex_torch_def ex_gcn_def ex_graph_def GCN_init_def
          GCN_forward_def num_node_features_def layer_stack_def GCN_num_layers_def Let_def
          argmax_dim1_def log_softmax_def relu_def tmap_def argmax_row_def mask_select_def
          eq_sum_def bdim_def bidx_def mask_sum_def)
  have b: "\<exists>e logp. GCN_forward ex_torch (ex_gcn\<lparr>training := False\<rparr>) ex_graph = Inr (e, logp) \<and>
      argmax_dim1 logp = Inr [0, 1]"
    by (simp add: ex_torch_def ex_gcn_def ex_graph_def GCN_init_def
          GCN_forward_def num_node_features_def layer_stack_def GCN_num_layers_def Let_def
          argmax_dim1_def log_softmax_def relu_def tmap_def argmax_row_def)
  have c: "masked_accuracy [0, 1] (data_y ex_graph) (val_mask ex_graph) = 1"
    by (simp add: masked_accuracy_def ex_graph_def upt_rec)
  from a b c show ?thesis by blast
qed


subsection \<open>GGNN_Train.py: the training loop and the script\<close>

lemma batch_step_requirements: "batch_step env s d = Inr s' \<Longrightarrow> requirements s' = requirements s"
  by (auto simp: batch_step_def split: sum.splits prod.splits)

lemma batch_loop_requirements: "batch_loop env ds s = Inr s' \<Longrightarrow> requirements s' = requirements s"
proof (induction ds arbitrary: s)
  case Nil
  then show ?case by simp
next
  case (Cons d ds)
  then show ?case by (auto split: sum.splits dest: batch_step_requirements)
qed

lemma eval_step_requirements: "eval_step s d = Inr s' \<Longrightarrow> requirements s' = requirements s"
  by (auto simp: eval_step_def split: sum.splits prod.splits)

lemma eval_loop_requirements: "eval_loop ds s = Inr s' \<Longrightarrow> requirements s' = requirements s"
proof (induction ds arbitrary: s)
  case Nil
  then show ?case by simp
next
  case (Cons d ds)
  then show ?case by (auto split: sum.splits dest: eval_step_requirements)
qed

lemma epoch_step_requirements:
  assumes "epoch_step env epoch s = Inr s'"
  shows "requirements s' = computeStats env (epoch - 1) (num_cpus env) (requirements s)"
proof -
  let ?s1 = "s\<lparr>requirements := computeStats env (epoch - 1) (num_cpus env) (requirements s)\<rparr>"
  from assms obtain s2 where b: "batch_loop env (batches (the_loader env)) ?s1 = Inr s2"
    by (auto simp: epoch_step_def Let_def split: sum.splits)
  have r2: "requirements s2 = requirements ?s1" by (rule batch_loop_requirements [OF b])
  let ?s3 = "s2\<lparr>tot_loss := tot_loss s2 / real (length (dataset (the_loader env)))\<rparr>"
  from assms b have "s' = ?s3 \<or> eval_loop (batches (the_loader env)) ?s3 = Inr s'"
    by (auto simp: epoch_step_def Let_def split: sum.splits if_splits option.splits)
  then have "requirements s' = requirements ?s3"
    by (auto dest: eval_loop_requirements)
  with r2 show ?thesis by simp
qed

lemma epochs_loop_files: "files (snd (epochs_loop env es s w)) = files w"
proof (induction es arbitrary: s w)
  case Nil
  show ?case by simp
next
  case (Cons e es)
  show ?case by (simp add: Let_def Cons split: sum.splits)
qed

lemma epochs_loop_Inr:
  "epochs_loop env es s w = (Inr s', w') \<Longrightarrow>
     stdout w' = stdout w @ map Processing_Epoch es \<and>
     requirements s' =
       fold (\<lambda>epoch r. computeStats env (epoch - 1) (num_cpus env) r) es (requirements s)"
proof (induction es arbitrary: s w)
  case Nil
  then show ?case by simp
next
  case (Cons e es)
  from Cons.prems obtain s1 where e: "epoch_step env e s = Inr s1"
    and l: "epochs_loop env es s1 (w\<lparr>stdout := stdout w @ [Processing_Epoch e]\<rparr>) = (Inr s', w')"
    by (auto simp: Let_def split: sum.splits)
  from Cons.IH [OF l] epoch_step_requirements [OF e] show ?case by simp
qed

lemma train_Inr:
  assumes "train env epochs k w = (Inr m, w')"
  shows "\<exists>m0 r0. GGNN_init (modules env) (dataset_in_channels env) (Some 32) k = Inr m0 \<and>
           load_requirements w = Inr r0 \<and>
           stdout w' = stdout w @ map Processing_Epoch [1..epochs] \<and>
           files w' = (files w)(file_path \<mapsto> JsonFile (telemetry_run env epochs r0))"
proof -
  from assms obtain m0 where m0: "GGNN_init (modules env) (dataset_in_channels env) (Some 32) k = Inr m0"
    by (auto simp: train_def split: sum.splits)
  from assms m0 obtain r0 where r0: "load_requirements w = Inr r0"
    by (auto simp: train_def split: sum.splits)
  let ?s0 = "\<lparr>model = m0, tot_loss = 0, best_accs = (0, 0, 0),
               requirements = computeStats env (- 1) (- 1) r0, accs = None\<rparr>"
  from assms m0 r0 obtain s w1 where l: "epochs_loop env [1..epochs] ?s0 w = (Inr s, w1)"
    and w': "w' = w1\<lparr>files := (files w1)(file_path \<mapsto> JsonFile (requirements s))\<rparr>"
    by (auto simp: train_def Let_def split: sum.splits prod.splits)
  from epochs_loop_Inr [OF l] have o: "stdout w1 = stdout w @ map Processing_Epoch [1..epochs]"
    and r: "requirements s = telemetry_run env epochs r0"
    by (simp_all add: telemetry_run_def)
  have f: "files w1 = files w" using epochs_loop_files [of env "[1..epochs]" ?s0 w] l by simp
  show ?thesis using m0 r0 o r f w' by simp
qed

lemma train_files: "p \<noteq> file_path \<Longrightarrow> files (snd (train env epochs k w)) p = files w p"
proof -
  assume p: "p \<noteq> file_path"
  have "files (snd (epochs_loop env es s w)) = files w" for es s
    by (rule epochs_loop_files)
  then have "\<And>es s r w1. epochs_loop env es s w = (r, w1) \<Longrightarrow> files w1 = files w"
    by (metis snd_conv)
  then show ?thesis using p
    by (auto simp: train_def Let_def split: sum.splits prod.splits)
qed

end
